theory Spec2Isabelle
  imports Main "HOL-Library.Word" "HOL-Library.List_Lexorder"
begin

section \<open>DerivedFiles/BiblePunctuationSystems Tables header\<close>

text \<open>
  The header declares three structure types and nothing else: no function, no object.
  It is embedded twice, both times line by line from the declarations.
  \<^item> The declarations themselves, as values of a small type of C types (\<open>ctype\<close>):
    member order, array bounds, pointers and \<open>const\<close> qualifiers are data that can be
    inspected.
  \<^item> The instances of the structures, as records whose fields have the members' names
    and order.
  The include guard is the only directive with an effect; it is a state transformer on
  what a translation unit has defined so far.
\<close>

subsection \<open>The declared types\<close>

text \<open>
  \<open>Const t\<close> is the \<open>const\<close>-qualified version of \<open>t\<close>, \<open>Array t n\<close> is \<open>t[n]\<close>,
  \<open>Pointer t\<close> is \<open>t*\<close>, and \<open>Struct tag ms\<close> is a structure with its members in
  declaration order, each a type and a name. A typedef name is the constant defined for
  it, so a member of type \<open>punctuationByRefEntry*\<close> is a \<open>Pointer\<close> to that structure.
\<close>

datatype ctype =
    UnsignedChar
  | SignedInt
  | Const ctype
  | Array ctype nat
  | Pointer ctype
  | Struct string "(ctype \<times> string) list"

text \<open>
  \<^verbatim>\<open>typedef struct punctuationByRefEntryStruct {
    const unsigned char referenceAbbreviation[3+1];
    const int indexNumber;
} punctuationByRefEntry;\<close>
\<close>

definition punctuationByRefEntryStruct :: ctype where
  "punctuationByRefEntryStruct =
     Struct ''punctuationByRefEntryStruct''
       [(Array (Const UnsignedChar) (3 + 1), ''referenceAbbreviation''),
        (Const SignedInt, ''indexNumber'')]"

text \<open>
  \<^verbatim>\<open>typedef struct punctuationByIndexEntryStruct {
    const int indexNumber;
    const unsigned char referenceAbbreviation[3+1];
} punctuationByIndexEntry;\<close>
\<close>

definition punctuationByIndexEntryStruct :: ctype where
  "punctuationByIndexEntryStruct =
     Struct ''punctuationByIndexEntryStruct''
       [(Const SignedInt, ''indexNumber''),
        (Array (Const UnsignedChar) (3 + 1), ''referenceAbbreviation'')]"

text \<open>
  \<^verbatim>\<open>typedef struct tableEntryStruct {
    const unsigned char* systemName;
    punctuationByRefEntry* byReference;
    punctuationByIndexEntry* byBook;
} tableEntry;\<close>
  In \<open>const unsigned char* systemName\<close> the qualifier belongs to the characters pointed
  to, not to the pointer.
\<close>

definition tableEntryStruct :: ctype where
  "tableEntryStruct =
     Struct ''tableEntryStruct''
       [(Pointer (Const UnsignedChar), ''systemName''),
        (Pointer punctuationByRefEntryStruct, ''byReference''),
        (Pointer punctuationByIndexEntryStruct, ''byBook'')]"

subsection \<open>Reading a declaration\<close>

fun members :: "ctype \<Rightarrow> (ctype \<times> string) list" where
  "members (Struct tag ms) = ms"
| "members (Const t) = members t"
| "members t = []"

definition member_names :: "ctype \<Rightarrow> string list" where
  "member_names t = map snd (members t)"

definition member_type :: "ctype \<Rightarrow> string \<Rightarrow> ctype option" where
  "member_type t name = map_of (map (\<lambda>m. (snd m, fst m)) (members t)) name"

fun pointee :: "ctype \<Rightarrow> ctype option" where
  "pointee (Pointer t) = Some t"
| "pointee (Const t) = pointee t"
| "pointee t = None"

text \<open>The type a pointer member points to: \<open>*(s.name)\<close>.\<close>

definition pointed_to :: "ctype \<Rightarrow> string \<Rightarrow> ctype option" where
  "pointed_to t name = Option.bind (member_type t name) pointee"

text \<open>
  \<open>sizeof\<close>, in the storage units of C (\<open>sizeof (unsigned char)\<close> is 1 by the language
  definition). What the language leaves to the implementation (the size of \<open>int\<close>, of a
  pointer, the padding of a structure) has no value here.
\<close>

fun sizeof :: "ctype \<Rightarrow> nat option" where
  "sizeof UnsignedChar = Some 1"
| "sizeof (Const t) = sizeof t"
| "sizeof (Array t n) = map_option (\<lambda>k. n * k) (sizeof t)"
| "sizeof t = None"

text \<open>
  Whether an assignment (without a cast) can change an object of the type, or a part of
  it: not when the type is \<open>const\<close>-qualified; an array through an element; a structure
  through a member; a scalar that is not qualified, always.
\<close>

fun assignable :: "ctype \<Rightarrow> bool" where
  "assignable UnsignedChar = True"
| "assignable SignedInt = True"
| "assignable (Const t) = False"
| "assignable (Array t n) = (0 < n \<and> assignable t)"
| "assignable (Pointer t) = True"
| "assignable (Struct tag ms) = list_ex (\<lambda>m. assignable (fst m)) ms"

subsection \<open>Instances\<close>

text \<open>
  \<open>unsigned char\<close> is a byte. \<open>int\<close> is taken as 32 bits wide, two's complement, as on
  the common ILP32 and LP64 platforms; \<open>sint\<close> reads its value. An object of type
  \<open>unsigned char[3+1]\<close> is a sequence of exactly \<open>3 + 1\<close> bytes.
\<close>

type_synonym uchar = "8 word"

type_synonym c_int = "32 word"

typedef uchar_3_1 = "{xs :: uchar list. length xs = 3 + 1}"
  by (rule exI [of _ "[0, 0, 0, 0]"]) simp

record punctuationByRefEntry =
  referenceAbbreviation :: uchar_3_1
  indexNumber :: c_int

record punctuationByIndexEntry =
  indexNumber :: c_int
  referenceAbbreviation :: uchar_3_1

text \<open>
  The three members of \<open>tableEntry\<close> are pointers. An instance is modelled with what
  each pointer addresses: the characters of the name, and the entries of the two arrays
  (without whatever marks an array's end, which the header does not say).
\<close>

record tableEntry =
  systemName :: "uchar list"
  byReference :: "punctuationByRefEntry list"
  byBook :: "punctuationByIndexEntry list"

text \<open>The logical content of an entry of either type: its abbreviation and its index.\<close>

definition ref_pair :: "punctuationByRefEntry \<Rightarrow> uchar_3_1 \<times> c_int" where
  "ref_pair e =
     (punctuationByRefEntry.referenceAbbreviation e, punctuationByRefEntry.indexNumber e)"

definition index_pair :: "punctuationByIndexEntry \<Rightarrow> uchar_3_1 \<times> c_int" where
  "index_pair e =
     (punctuationByIndexEntry.referenceAbbreviation e, punctuationByIndexEntry.indexNumber e)"

text \<open>
  A printable character (\<open>isprint\<close> in the C locale), and an abbreviation field made of
  three of them and a zero byte.
\<close>

definition printable :: "uchar \<Rightarrow> bool" where
  "printable c = (32 \<le> unat c \<and> unat c \<le> 126)"

definition three_printable_then_nul :: "uchar_3_1 \<Rightarrow> bool" where
  "three_printable_then_nul a =
     (case Rep_uchar_3_1 a of
        [c0, c1, c2, c3] \<Rightarrow> printable c0 \<and> printable c1 \<and> printable c2 \<and> c3 = 0
      | _ \<Rightarrow> False)"

text \<open>
  How an instance gets its abbreviation: the language's rule for initialising an array
  of character type from a string literal, at the bound \<open>3 + 1\<close> the header declares.
  The characters of the literal fill the array from its start and every element left
  over is zero, which is where the terminator comes from when the literal has three
  characters. A literal of exactly \<open>3 + 1\<close> characters fills the array and leaves no
  terminator; a longer one is refused by the compiler. \<open>s\<close> is the literal without
  its own terminating zero.
\<close>

definition init_from_literal :: "uchar list \<Rightarrow> uchar_3_1 option" where
  "init_from_literal s =
     (if 3 + 1 < length s then None
      else Some (Abs_uchar_3_1 (s @ replicate (3 + 1 - length s) 0)))"



subsection \<open>A populated table\<close>

text \<open>
  Modelled from the spec: the generator (BiblePunctuationSystems.py) and the constant
  tables it writes are not in the header, which only declares their types. The spec
  describes a populated table as a system name with "a by-reference-sorted list of
  ReferenceToIndexEntry and a by-index-sorted list of IndexToReferenceEntry", "two
  different sort orders over the same logical entry set". So a table is populated from
  one list of (abbreviation, index) pairs, written once as \<open>punctuationByRefEntry\<close>
  entries in the order of their abbreviations and once as \<open>punctuationByIndexEntry\<close>
  entries in the order of their index numbers. The spec names no order; abbreviations
  are compared byte by byte (as \<open>strcmp\<close> does), index numbers as signed integers.
\<close>

definition populated_table :: "uchar list \<Rightarrow> (uchar_3_1 \<times> c_int) list \<Rightarrow> tableEntry" where
  "populated_table name entries =
     \<lparr>systemName = name,
      byReference =
        sort_key (\<lambda>e. Rep_uchar_3_1 (punctuationByRefEntry.referenceAbbreviation e))
          (map (\<lambda>(a, i). \<lparr>punctuationByRefEntry.referenceAbbreviation = a,
                           punctuationByRefEntry.indexNumber = i\<rparr>) entries),
      byBook =
        sort_key (\<lambda>e. sint (punctuationByIndexEntry.indexNumber e))
          (map (\<lambda>(a, i). \<lparr>punctuationByIndexEntry.indexNumber = i,
                           punctuationByIndexEntry.referenceAbbreviation = a\<rparr>) entries)\<rparr>"

subsection \<open>The include guard\<close>

text \<open>
  \<^verbatim>\<open>#ifndef BIBLEPUNCTUATIONSYSTEMS_Tables_h
#define BIBLEPUNCTUATIONSYSTEMS_Tables_h
  ... the three typedefs ...
#endif\<close>
  A translation unit, as far as the header sees and changes it: the macros defined so
  far, and the typedefs declared so far, in order.
\<close>

record translation_unit =
  defined_macros :: "string set"
  typedefs :: "(string \<times> ctype) list"

text \<open>The compiler refuses a second definition of a structure tag or of a typedef name.\<close>

datatype error = Redefinition string

definition guard :: string where
  "guard = ''BIBLEPUNCTUATIONSYSTEMS_Tables_h''"

text \<open>The body of the header between \<open>#define\<close> and \<open>#endif\<close>, in its order.\<close>

definition header_typedefs :: "(string \<times> ctype) list" where
  "header_typedefs =
     [(''punctuationByRefEntry'', punctuationByRefEntryStruct),
      (''punctuationByIndexEntry'', punctuationByIndexEntryStruct),
      (''tableEntry'', tableEntryStruct)]"

fun tag_of :: "ctype \<Rightarrow> string option" where
  "tag_of (Struct tag ms) = Some tag"
| "tag_of t = None"

definition typedef_names :: "translation_unit \<Rightarrow> string list" where
  "typedef_names tu = map fst (typedefs tu)"

definition struct_tags :: "translation_unit \<Rightarrow> string option list" where
  "struct_tags tu = map (\<lambda>d. tag_of (snd d)) (typedefs tu)"

text \<open>
  One declaration \<^verbatim>\<open>typedef struct tag { ... } name;\<close>: an error when the unit
  already defines the tag or already declares the name, and otherwise the unit with the
  declaration added.
\<close>

definition declare_typedef :: "string \<times> ctype \<Rightarrow> translation_unit \<Rightarrow> error + translation_unit" where
  "declare_typedef d tu =
     (case tag_of (snd d) of
        Some tag \<Rightarrow>
          if Some tag \<in> set (struct_tags tu) then Inl (Redefinition tag)
          else if fst d \<in> set (typedef_names tu) then Inl (Redefinition (fst d))
          else Inr (tu\<lparr>typedefs := typedefs tu @ [d]\<rparr>)
      | None \<Rightarrow>
          if fst d \<in> set (typedef_names tu) then Inl (Redefinition (fst d))
          else Inr (tu\<lparr>typedefs := typedefs tu @ [d]\<rparr>))"

fun declare_all :: "(string \<times> ctype) list \<Rightarrow> translation_unit \<Rightarrow> error + translation_unit" where
  "declare_all [] tu = Inr tu"
| "declare_all (d # ds) tu =
     (case declare_typedef d tu of
        Inl e \<Rightarrow> Inl e
      | Inr tu' \<Rightarrow> declare_all ds tu')"

text \<open>
  One \<open>#include\<close> of the header: nothing when the guard macro is defined; otherwise
  the macro is defined and then the three typedefs are declared, one after the other.
\<close>

definition include_header :: "translation_unit \<Rightarrow> error + translation_unit" where
  "include_header tu =
     (if guard \<in> defined_macros tu then Inr tu
      else declare_all header_typedefs
             (tu\<lparr>defined_macros := insert guard (defined_macros tu)\<rparr>))"

text \<open>The header included \<open>n\<close> times in a row; the first error ends the compilation.\<close>

fun include_times :: "nat \<Rightarrow> translation_unit \<Rightarrow> error + translation_unit" where
  "include_times 0 tu = Inr tu"
| "include_times (Suc n) tu =
     (case include_header tu of
        Inl e \<Rightarrow> Inl e
      | Inr tu' \<Rightarrow> include_times n tu')"

definition empty_unit :: translation_unit where
  "empty_unit = \<lparr>defined_macros = {}, typedefs = []\<rparr>"

section \<open>Properties\<close>

text \<open>
  C1. Field count and order of the three structures. \<open>punctuationByRefEntry\<close> has two
  members, the abbreviation then the index; \<open>punctuationByIndexEntry\<close> has the same two
  in the other order; \<open>tableEntry\<close> has three, \<open>systemName\<close>, then \<open>byReference\<close>, a
  pointer to \<open>punctuationByRefEntry\<close>, then \<open>byBook\<close>, a pointer to
  \<open>punctuationByIndexEntry\<close>.
\<close>

theorem struct_member_order:
  "member_names punctuationByRefEntryStruct = [''referenceAbbreviation'', ''indexNumber'']
   \<and> member_names punctuationByIndexEntryStruct = [''indexNumber'', ''referenceAbbreviation'']
   \<and> member_names tableEntryStruct = [''systemName'', ''byReference'', ''byBook'']
   \<and> pointed_to tableEntryStruct ''byReference'' = Some punctuationByRefEntryStruct
   \<and> pointed_to tableEntryStruct ''byBook'' = Some punctuationByIndexEntryStruct"
  by (simp add: member_names_def pointed_to_def member_type_def
      punctuationByRefEntryStruct_def punctuationByIndexEntryStruct_def tableEntryStruct_def)

text \<open>
  C2. In both entry types \<open>referenceAbbreviation\<close> is an array of \<open>3 + 1\<close> unsigned
  characters: its size is 4 storage units, three for the characters and one for the
  terminator, whatever it holds. It is an array, not a pointer to a string of some
  length, and every instance of either type holds exactly 4 units there.
\<close>

theorem referenceAbbreviation_four_units:
  "member_type punctuationByRefEntryStruct ''referenceAbbreviation''
     = Some (Array (Const UnsignedChar) (3 + 1))
   \<and> member_type punctuationByIndexEntryStruct ''referenceAbbreviation''
     = Some (Array (Const UnsignedChar) (3 + 1))
   \<and> Option.bind (member_type punctuationByRefEntryStruct ''referenceAbbreviation'') sizeof
     = Some 4
   \<and> Option.bind (member_type punctuationByIndexEntryStruct ''referenceAbbreviation'') sizeof
     = Some 4
   \<and> length (Rep_uchar_3_1 (punctuationByRefEntry.referenceAbbreviation r)) = 4
   \<and> length (Rep_uchar_3_1 (punctuationByIndexEntry.referenceAbbreviation x)) = 4"
  using Rep_uchar_3_1 [of "punctuationByRefEntry.referenceAbbreviation r"]
    Rep_uchar_3_1 [of "punctuationByIndexEntry.referenceAbbreviation x"]
  by (simp add: member_type_def punctuationByRefEntryStruct_def
      punctuationByIndexEntryStruct_def)

text \<open>
  C3. Round trip between the two entry types. Building a \<open>punctuationByIndexEntry\<close>
  from the two fields of a \<open>punctuationByRefEntry\<close> and a \<open>punctuationByRefEntry\<close>
  back from its fields gives the entry one started from; the same holds starting from a
  \<open>punctuationByIndexEntry\<close>. The two structures declare the same two members, one
  in the reverse order of the other.
\<close>

theorem entry_round_trip:
  fixes r :: punctuationByRefEntry and x :: punctuationByIndexEntry
  shows
  "punctuationByRefEntry.make
      (punctuationByIndexEntry.referenceAbbreviation
         (punctuationByIndexEntry.make (punctuationByRefEntry.indexNumber r)
            (punctuationByRefEntry.referenceAbbreviation r)))
      (punctuationByIndexEntry.indexNumber
         (punctuationByIndexEntry.make (punctuationByRefEntry.indexNumber r)
            (punctuationByRefEntry.referenceAbbreviation r))) = r
   \<and> punctuationByIndexEntry.make
      (punctuationByRefEntry.indexNumber
         (punctuationByRefEntry.make (punctuationByIndexEntry.referenceAbbreviation x)
            (punctuationByIndexEntry.indexNumber x)))
      (punctuationByRefEntry.referenceAbbreviation
         (punctuationByRefEntry.make (punctuationByIndexEntry.referenceAbbreviation x)
            (punctuationByIndexEntry.indexNumber x))) = x
   \<and> members punctuationByIndexEntryStruct = rev (members punctuationByRefEntryStruct)"
  by (simp add: punctuationByRefEntry.make_def punctuationByIndexEntry.make_def
      punctuationByRefEntryStruct_def punctuationByIndexEntryStruct_def)

text \<open>
  C4, as claimed, fails for \<open>tableEntry\<close>: none of its three members is
  \<open>const\<close>-qualified (in \<open>systemName\<close> the qualifier is on the characters), so each
  can be assigned in an instance that is not itself declared \<open>const\<close>.
\<close>

theorem tableEntry_members_assignable:
  "map_option assignable (member_type tableEntryStruct ''systemName'') = Some True
   \<and> map_option assignable (member_type tableEntryStruct ''byReference'') = Some True
   \<and> map_option assignable (member_type tableEntryStruct ''byBook'') = Some True
   \<and> assignable tableEntryStruct"
  by (simp add: member_type_def tableEntryStruct_def)

text \<open>
  C4, amended. The two entry types are immutable: every member of
  \<open>punctuationByRefEntry\<close> and of \<open>punctuationByIndexEntry\<close> is \<open>const\<close>-qualified
  (the array through its elements), so no assignment changes a field of an instance.
  That covers the entries a \<open>tableEntry\<close> reaches through \<open>byReference\<close> and
  \<open>byBook\<close>.
\<close>

theorem entries_not_assignable:
  "\<not> assignable punctuationByRefEntryStruct
   \<and> \<not> assignable punctuationByIndexEntryStruct
   \<and> map_option assignable (pointed_to tableEntryStruct ''byReference'') = Some False
   \<and> map_option assignable (pointed_to tableEntryStruct ''byBook'') = Some False"
  by (simp add: pointed_to_def member_type_def tableEntryStruct_def
      punctuationByRefEntryStruct_def punctuationByIndexEntryStruct_def)

text \<open>
  C5. In a populated table the two arrays hold the same (abbreviation, index) pairs:
  each pair of \<open>byReference\<close> is a pair of \<open>byBook\<close> and conversely.
\<close>

theorem populated_same_pairs:
  "set (map ref_pair (byReference (populated_table name entries)))
     = set (map index_pair (byBook (populated_table name entries)))"
  by (simp add: populated_table_def ref_pair_def index_pair_def image_image case_prod_unfold)

text \<open>
  C6. In a populated table \<open>byReference\<close> is sorted by abbreviation and \<open>byBook\<close> is
  sorted by index number.
\<close>

theorem populated_sorted:
  "sorted (map (\<lambda>e. Rep_uchar_3_1 (punctuationByRefEntry.referenceAbbreviation e))
             (byReference (populated_table name entries)))
   \<and> sorted (map (\<lambda>e. sint (punctuationByIndexEntry.indexNumber e))
             (byBook (populated_table name entries)))"
  by (simp add: populated_table_def)

text \<open>
  C7, as claimed, fails: \<open>indexNumber\<close> is declared \<open>const int\<close>, a signed type, and
  an entry of either type can hold a negative index.
\<close>

theorem indexNumber_negative:
  "sint (punctuationByRefEntry.indexNumber
      \<lparr>punctuationByRefEntry.referenceAbbreviation = Abs_uchar_3_1 [71, 69, 78, 0],
       punctuationByRefEntry.indexNumber = - 1\<rparr>) < 0
   \<and> sint (punctuationByIndexEntry.indexNumber
      \<lparr>punctuationByIndexEntry.indexNumber = - 1,
       punctuationByIndexEntry.referenceAbbreviation = Abs_uchar_3_1 [71, 69, 78, 0]\<rparr>) < 0"
  by simp

text \<open>
  C7, amended. In every entry of either type \<open>indexNumber\<close> is a signed \<open>int\<close>: its
  value lies between \<open>INT_MIN\<close> and \<open>INT_MAX\<close> (for the 32-bit \<open>int\<close> of the model,
  from \<open>- 2 ^ 31\<close> up to but not including \<open>2 ^ 31\<close>).
\<close>

theorem indexNumber_int_range:
  "- (2 ^ 31) \<le> sint (punctuationByRefEntry.indexNumber r)
   \<and> sint (punctuationByRefEntry.indexNumber r) < 2 ^ 31
   \<and> - (2 ^ 31) \<le> sint (punctuationByIndexEntry.indexNumber x)
   \<and> sint (punctuationByIndexEntry.indexNumber x) < 2 ^ 31"
  using sint_ge [of "punctuationByRefEntry.indexNumber r"]
    sint_lt [of "punctuationByRefEntry.indexNumber r"]
    sint_ge [of "punctuationByIndexEntry.indexNumber x"]
    sint_lt [of "punctuationByIndexEntry.indexNumber x"]
  by simp




text \<open>
  The rule matters at the other lengths: a literal of two characters leaves two zero
  units, one of four printable characters leaves no terminator, one of five is refused.
\<close>

lemma init_from_literal_two:
  "map_option Rep_uchar_3_1 (init_from_literal [71, 78]) = Some [71, 78, 0, 0]"
  by (simp add: init_from_literal_def Abs_uchar_3_1_inverse numeral_2_eq_2)

lemma init_from_literal_four:
  "map_option three_printable_then_nul (init_from_literal [71, 69, 78, 88]) = Some False"
  by (simp add: init_from_literal_def three_printable_then_nul_def Abs_uchar_3_1_inverse)

lemma init_from_literal_five: "init_from_literal [71, 69, 78, 69, 83] = None"
  by (simp add: init_from_literal_def)

text \<open>
  C9. \<open>systemName\<close> points to \<open>const unsigned char\<close>: the text it points to cannot
  be assigned through the member.
\<close>

theorem systemName_read_only:
  "pointed_to tableEntryStruct ''systemName'' = Some (Const UnsignedChar)
   \<and> map_option assignable (pointed_to tableEntryStruct ''systemName'') = Some False"
  by (simp add: pointed_to_def member_type_def tableEntryStruct_def)

text \<open>A successful inclusion leaves the guard defined, and a later one does nothing.\<close>

lemma declare_typedef_macros:
  "declare_typedef d tu = Inr tu' \<Longrightarrow> defined_macros tu' = defined_macros tu"
  by (auto simp: declare_typedef_def split: option.splits if_splits)

lemma declare_all_macros:
  "declare_all ds tu = Inr tu' \<Longrightarrow> defined_macros tu' = defined_macros tu"
proof (induction ds arbitrary: tu)
  case Nil
  then show ?case by simp
next
  case (Cons d ds)
  then show ?case
    by (auto split: sum.splits dest: declare_typedef_macros)
qed

lemma include_header_defines_guard:
  "include_header tu = Inr tu' \<Longrightarrow> guard \<in> defined_macros tu'"
  by (auto simp: include_header_def split: if_splits dest: declare_all_macros)

lemma include_times_guarded:
  "guard \<in> defined_macros tu \<Longrightarrow> include_times n tu = Inr tu"
  by (induction n) (simp_all add: include_header_def)

lemma include_times_Suc: "include_times (Suc n) tu = include_header tu"
  by (cases "include_header tu")
    (simp_all add: include_times_guarded include_header_defines_guard)

text \<open>
  Where the guard is not defined and the unit has none of the header's tags and names,
  an inclusion declares the three typedefs after what was there.
\<close>

lemma include_header_fresh:
  assumes "guard \<notin> defined_macros tu"
    and "set (typedef_names tu) \<inter> set (map fst header_typedefs) = {}"
    and "set (struct_tags tu) \<inter> set (map (\<lambda>d. tag_of (snd d)) header_typedefs) = {}"
  shows "include_header tu =
     Inr (tu\<lparr>defined_macros := insert guard (defined_macros tu),
             typedefs := typedefs tu @ header_typedefs\<rparr>)"
  using assms
  by (simp add: include_header_def header_typedefs_def declare_typedef_def
      typedef_names_def struct_tags_def
      punctuationByRefEntryStruct_def punctuationByIndexEntryStruct_def tableEntryStruct_def)

text \<open>
  C10. Including the header once or more gives what a single inclusion gives, for every
  translation unit. The header declares three types, \<open>punctuationByRefEntry\<close>,
  \<open>punctuationByIndexEntry\<close> and \<open>tableEntry\<close>. Where the guard macro was not defined
  and the unit had none of the header's tags and names, any number of inclusions
  succeeds (nothing is defined twice) and adds these three declarations exactly once;
  from the empty unit the result is the three declarations and the guard.
\<close>

theorem include_guard_idempotent:
  "include_times (Suc n) tu = include_header tu
   \<and> (guard \<notin> defined_macros tu
        \<and> set (typedef_names tu) \<inter> set (map fst header_typedefs) = {}
        \<and> set (struct_tags tu) \<inter> set (map (\<lambda>d. tag_of (snd d)) header_typedefs) = {}
      \<longrightarrow> include_times (Suc n) tu =
            Inr (tu\<lparr>defined_macros := insert guard (defined_macros tu),
                    typedefs := typedefs tu @ header_typedefs\<rparr>))
   \<and> map fst header_typedefs
       = [''punctuationByRefEntry'', ''punctuationByIndexEntry'', ''tableEntry'']
   \<and> map snd header_typedefs
       = [punctuationByRefEntryStruct, punctuationByIndexEntryStruct, tableEntryStruct]
   \<and> include_times (Suc n) empty_unit =
         Inr \<lparr>defined_macros = {guard},
              typedefs = [(''punctuationByRefEntry'', punctuationByRefEntryStruct),
                          (''punctuationByIndexEntry'', punctuationByIndexEntryStruct),
                          (''tableEntry'', tableEntryStruct)]\<rparr>"
proof -
  have e: "include_header empty_unit =
      Inr \<lparr>defined_macros = {guard},
           typedefs = [(''punctuationByRefEntry'', punctuationByRefEntryStruct),
                       (''punctuationByIndexEntry'', punctuationByIndexEntryStruct),
                       (''tableEntry'', tableEntryStruct)]\<rparr>"
    by (simp add: include_header_fresh empty_unit_def typedef_names_def struct_tags_def)
      (simp add: header_typedefs_def)
  show ?thesis
    unfolding include_times_Suc
    by (simp add: include_header_fresh e) (simp add: header_typedefs_def)
qed

theorem include_guard_idempotent_witness:
  "guard \<notin> defined_macros empty_unit
   \<and> set (typedef_names empty_unit) \<inter> set (map fst header_typedefs) = {}
   \<and> set (struct_tags empty_unit) \<inter> set (map (\<lambda>d. tag_of (snd d)) header_typedefs) = {}
   \<and> include_times 3 empty_unit = include_header empty_unit
   \<and> include_times 3 empty_unit =
         Inr \<lparr>defined_macros = {guard},
              typedefs = [(''punctuationByRefEntry'', punctuationByRefEntryStruct),
                          (''punctuationByIndexEntry'', punctuationByIndexEntryStruct),
                          (''tableEntry'', tableEntryStruct)]\<rparr>"
proof -
  have h: "guard \<notin> defined_macros empty_unit"
    "set (typedef_names empty_unit) \<inter> set (map fst header_typedefs) = {}"
    "set (struct_tags empty_unit) \<inter> set (map (\<lambda>d. tag_of (snd d)) header_typedefs) = {}"
    by (simp_all add: empty_unit_def typedef_names_def struct_tags_def)
  have n: "Suc 2 = 3"
    by simp
  from include_guard_idempotent [of 2 empty_unit] h show ?thesis
    unfolding n by blast
qed

text \<open>
  Without the guard's protection the compiler refuses the header: a unit that already
  declares \<open>tableEntry\<close> and has not defined the guard macro.
\<close>

lemma include_header_redefinition:
  "include_header \<lparr>defined_macros = {}, typedefs = [(''tableEntry'', SignedInt)]\<rparr>
     = Inl (Redefinition ''tableEntry'')"
  by (simp add: include_header_def header_typedefs_def declare_typedef_def
      typedef_names_def struct_tags_def
      punctuationByRefEntryStruct_def punctuationByIndexEntryStruct_def tableEntryStruct_def)

end
